theory Spec2Isabelle
  imports Complex_Main "HOL-Library.Word" "HOL-Library.Log_Nat"
begin

section \<open>Values of the Python/NumPy program\<close>

text \<open>
  \<^verbatim>\<open>darklimb.py\<close> computes with NumPy arrays of binary64 numbers. A finite number is
  modelled by the real it stands for (arithmetic on finite numbers is exact: no rounding,
  no overflow, one zero); the values that NumPy produces where Python would raise, NaN and
  the two infinities, are constructors of their own, so that a silent division by zero is
  visible in the model. Rounding is treated separately, in a section of its own.
\<close>

datatype npfloat = Fin real | PInf | NInf | NaN

text \<open>The exceptions that the statements of \<^verbatim>\<open>darklimb\<close> can raise.\<close>

datatype py_error =
    KeyError string      \<comment> \<open>\<^verbatim>\<open>head[key]\<close> on an absent key\<close>
  | ZeroDivisionError    \<comment> \<open>\<^verbatim>\<open>/\<close> on two Python numbers, the divisor zero\<close>
  | ValueError           \<comment> \<open>\<^verbatim>\<open>np.max\<close> of an empty array; shapes that do not broadcast\<close>
  | OverflowError        \<comment> \<open>a Python integer that is no \<^verbatim>\<open>uint32\<close>\<close>

definition bind_err :: "py_error + 'a \<Rightarrow> ('a \<Rightarrow> py_error + 'b) \<Rightarrow> py_error + 'b" where
  "bind_err r f = (case r of Inl e \<Rightarrow> Inl e | Inr v \<Rightarrow> f v)"

subsection \<open>Elementwise arithmetic of NumPy\<close>

text \<open>IEEE 754 on the special values; a zero divisor gives an infinity or NaN, never an error.\<close>

fun np_add :: "npfloat \<Rightarrow> npfloat \<Rightarrow> npfloat" where
  "np_add (Fin a) (Fin b) = Fin (a + b)"
| "np_add NaN _ = NaN"
| "np_add _ NaN = NaN"
| "np_add PInf NInf = NaN"
| "np_add NInf PInf = NaN"
| "np_add PInf _ = PInf"
| "np_add NInf _ = NInf"
| "np_add _ PInf = PInf"
| "np_add _ NInf = NInf"

definition np_signed_inf :: "bool \<Rightarrow> npfloat" where
  "np_signed_inf positive = (if positive then PInf else NInf)"

fun np_mul :: "npfloat \<Rightarrow> npfloat \<Rightarrow> npfloat" where
  "np_mul (Fin a) (Fin b) = Fin (a * b)"
| "np_mul NaN _ = NaN"
| "np_mul _ NaN = NaN"
| "np_mul (Fin a) PInf = (if a = 0 then NaN else np_signed_inf (0 < a))"
| "np_mul (Fin a) NInf = (if a = 0 then NaN else np_signed_inf (a < 0))"
| "np_mul PInf (Fin b) = (if b = 0 then NaN else np_signed_inf (0 < b))"
| "np_mul NInf (Fin b) = (if b = 0 then NaN else np_signed_inf (b < 0))"
| "np_mul PInf PInf = PInf"
| "np_mul NInf NInf = PInf"
| "np_mul PInf NInf = NInf"
| "np_mul NInf PInf = NInf"

fun np_div :: "npfloat \<Rightarrow> npfloat \<Rightarrow> npfloat" where
  "np_div (Fin a) (Fin b) =
     (if b = 0 then (if a = 0 then NaN else np_signed_inf (0 < a)) else Fin (a / b))"
| "np_div NaN _ = NaN"
| "np_div _ NaN = NaN"
| "np_div (Fin a) PInf = Fin 0"
| "np_div (Fin a) NInf = Fin 0"
| "np_div PInf (Fin b) = np_signed_inf (0 \<le> b)"
| "np_div NInf (Fin b) = np_signed_inf (b < 0)"
| "np_div PInf PInf = NaN"
| "np_div NInf NInf = NaN"
| "np_div PInf NInf = NaN"
| "np_div NInf PInf = NaN"

text \<open>\<^verbatim>\<open>grid > 1.0\<close>: a comparison with NaN is false.\<close>

fun np_gt :: "npfloat \<Rightarrow> real \<Rightarrow> bool" where
  "np_gt (Fin a) c = (c < a)"
| "np_gt PInf c = True"
| "np_gt NInf c = False"
| "np_gt NaN c = False"

text \<open>\<^verbatim>\<open>np.arcsin\<close> is NaN outside \<open>[-1, 1]\<close>; \<^verbatim>\<open>np.cos\<close> is NaN at an infinity.\<close>

fun np_arcsin :: "npfloat \<Rightarrow> npfloat" where
  "np_arcsin (Fin a) = (if - 1 \<le> a \<and> a \<le> 1 then Fin (arcsin a) else NaN)"
| "np_arcsin _ = NaN"

fun np_cos :: "npfloat \<Rightarrow> npfloat" where
  "np_cos (Fin a) = Fin (cos a)"
| "np_cos _ = NaN"

definition np_square :: "npfloat \<Rightarrow> npfloat" where
  "np_square x = np_mul x x"

text \<open>\<^verbatim>\<open>int(x)\<close> on a finite Python float: the fraction is dropped, towards zero.\<close>

definition py_int :: "real \<Rightarrow> int" where
  "py_int r = (if 0 \<le> r then \<lfloor>r\<rfloor> else \<lceil>r\<rceil>)"

section \<open>The coefficient polynomials\<close>

text \<open>
  \<^verbatim>\<open>darklimb_u\<close> and \<^verbatim>\<open>darklimb_v\<close>: the list of powers, the list of coefficients, and the
  sum of their elementwise products.
\<close>

definition darklimb_u :: "real \<Rightarrow> real" where
  "darklimb_u ll =
     (let pll = [1, ll, ll ^ 2, ll ^ 3, ll ^ 4, ll ^ 5];
          au = - 8.9829751;
          bu = 0.0069093916;
          cu = - 1.8144591 / 10 ^ 6;
          du = 2.2540875 / 10 ^ 10;
          eu = - 1.3389747 / 10 ^ 14;
          fu = 3.0453572 / 10 ^ 19;
          a = [au, bu, cu, du, eu, fu]
      in sum_list (map2 (*) a pll))"

definition darklimb_v :: "real \<Rightarrow> real" where
  "darklimb_v ll =
     (let pll = [1, ll, ll ^ 2, ll ^ 3, ll ^ 4, ll ^ 5];
          av = 9.2891180;
          bv = - 0.0062212632;
          cv = 1.5788029 / 10 ^ 6;
          dv = - 1.9359644 / 10 ^ 10;
          ev = 1.1444469 / 10 ^ 14;
          fv = - 2.599494 / 10 ^ 19;
          a = [av, bv, cv, dv, ev, fv]
      in sum_list (map2 (*) a pll))"

section \<open>Reading the header\<close>

text \<open>
  The header \<^verbatim>\<open>mapa.meta\<close> is a dictionary from keys to numbers. \<^verbatim>\<open>head[key]\<close> raises
  \<^verbatim>\<open>KeyError\<close> on an absent key (the error the specification calls MissingFieldError), and
  the quotient of two Python numbers raises \<^verbatim>\<open>ZeroDivisionError\<close> on a zero divisor.
\<close>

type_synonym header = "string \<rightharpoonup> real"

definition getitem :: "header \<Rightarrow> string \<Rightarrow> py_error + real" where
  "getitem head k = (case head k of None \<Rightarrow> Inl (KeyError k) | Some v \<Rightarrow> Inr v)"

definition py_truediv :: "real \<Rightarrow> real \<Rightarrow> py_error + real" where
  "py_truediv a b = (if b = 0 then Inl ZeroDivisionError else Inr (a / b))"

record params =
  wavelength :: real
  xcen :: real
  ycen :: real
  radius :: real
  size :: real
  bzero :: real
  blank :: real
  bscale :: real

text \<open>Lines 99 to 106, in the order of the source.\<close>

definition read_head :: "header \<Rightarrow> py_error + params" where
  "read_head head =
     bind_err (getitem head ''WAVELNTH'') (\<lambda>wavelength'.
     bind_err (getitem head ''CRPIX1'') (\<lambda>xcen'.
     bind_err (getitem head ''CRPIX2'') (\<lambda>ycen'.
     bind_err (getitem head ''RSUN_OBS'') (\<lambda>rsun_obs.
     bind_err (getitem head ''CDELT1'') (\<lambda>cdelt1.
     bind_err (py_truediv rsun_obs cdelt1) (\<lambda>radius'.
     bind_err (getitem head ''NAXIS1'') (\<lambda>size'.
     bind_err (getitem head ''BZERO'') (\<lambda>bzero'.
     bind_err (getitem head ''BLANK'') (\<lambda>blank'.
     bind_err (getitem head ''BSCALE'') (\<lambda>bscale'.
       Inr \<lparr>wavelength = wavelength', xcen = xcen', ycen = ycen', radius = radius',
            size = size', bzero = bzero', blank = blank', bscale = bscale'\<rparr>))))))))))"

text \<open>The keys of the header in the order in which lines 99 to 106 read them.\<close>

definition header_keys :: "string list" where
  "header_keys = [''WAVELNTH'', ''CRPIX1'', ''CRPIX2'', ''RSUN_OBS'', ''CDELT1'', ''NAXIS1'',
                  ''BZERO'', ''BLANK'', ''BSCALE'']"

section \<open>The correction\<close>

text \<open>A map of the image library: the pixel grid (a list of rows) and the header.\<close>

record 'a smap =
  data :: "'a list list"
  meta :: header

definition nrows :: "'a list list \<Rightarrow> nat" where
  "nrows a = length a"

definition ncols :: "'a list list \<Rightarrow> nat" where
  "ncols a = (case a of [] \<Rightarrow> 0 | r # _ \<Rightarrow> length r)"

definition shape :: "'a list list \<Rightarrow> nat \<times> nat" where
  "shape a = (nrows a, ncols a)"

text \<open>\<^verbatim>\<open>np.max(data)\<close> raises \<^verbatim>\<open>ValueError\<close> on an array with no element.\<close>

definition np_max :: "real list list \<Rightarrow> py_error + real" where
  "np_max d = (case concat d of [] \<Rightarrow> Inl ValueError | x # xs \<Rightarrow> Inr (fold max xs x))"

text \<open>
  Lines 110 to 112 at one pixel: \<^verbatim>\<open>1e4*data/np.max(data)\<close>, then zero where
  \<^verbatim>\<open>data < -10\<close>.
\<close>

definition rescale :: "real \<Rightarrow> real \<Rightarrow> npfloat" where
  "rescale mx d = (if d < - 10 then Fin 0 else np_div (Fin (10 ^ 4 * d)) (Fin mx))"

text \<open>
  Lines 118 to 128 at the pixel of row \<open>i\<close> and column \<open>j\<close>: \<^verbatim>\<open>meshgrid\<close> puts the column
  index in \<^verbatim>\<open>xx\<close> and the row index in \<^verbatim>\<open>yy\<close>. \<open>normalized\<close> is \<^verbatim>\<open>z/radius\<close> before the
  clamp, \<open>grid_at\<close> after it.
\<close>

definition normalized :: "real \<Rightarrow> real \<Rightarrow> real \<Rightarrow> nat \<Rightarrow> nat \<Rightarrow> npfloat" where
  "normalized xc yc rad i j =
     (let z = sqrt ((real j - xc) ^ 2 + (real i - yc) ^ 2) in np_div (Fin z) (Fin rad))"

definition clamp :: "npfloat \<Rightarrow> npfloat" where
  "clamp g = (if np_gt g 1 then Fin 0 else g)"

definition grid_at :: "real \<Rightarrow> real \<Rightarrow> real \<Rightarrow> nat \<Rightarrow> nat \<Rightarrow> npfloat" where
  "grid_at xc yc rad i j = clamp (normalized xc yc rad i j)"

text \<open>Lines 130 and 131 at one pixel.\<close>

definition limbfilt_at :: "real \<Rightarrow> real \<Rightarrow> npfloat \<Rightarrow> npfloat" where
  "limbfilt_at ul vl g =
     np_add (np_add (Fin (1 - ul - vl)) (np_mul (Fin ul) (np_cos (np_arcsin g))))
            (np_mul (Fin vl) (np_square (np_cos (np_arcsin g))))"

definition limbfilt :: "real \<Rightarrow> params \<Rightarrow> npfloat list list" where
  "limbfilt ll p =
     (let ul = darklimb_u ll; vl = darklimb_v ll; n = nat \<lceil>size p\<rceil>
      in map (\<lambda>i. map (\<lambda>j. limbfilt_at ul vl (grid_at (xcen p) (ycen p) (radius p) i j)) [0..<n])
             [0..<n])"

text \<open>
  \<^verbatim>\<open>array/limbfilt\<close> broadcasts: two extents agree when they are equal or one of them is 1,
  and an axis of extent 1 is read at index 0 throughout. Shapes that do not agree raise
  \<^verbatim>\<open>ValueError\<close>.
\<close>

definition broadcast_dim :: "nat \<Rightarrow> nat \<Rightarrow> nat option" where
  "broadcast_dim a b =
     (if a = b then Some a else if a = 1 then Some b else if b = 1 then Some a else None)"

definition bget :: "'a list list \<Rightarrow> nat \<Rightarrow> nat \<Rightarrow> 'a" where
  "bget a i j = a ! (if nrows a = 1 then 0 else i) ! (if ncols a = 1 then 0 else j)"

definition np_divide :: "npfloat list list \<Rightarrow> npfloat list list \<Rightarrow> py_error + npfloat list list" where
  "np_divide a b =
     (case broadcast_dim (nrows a) (nrows b) of
        None \<Rightarrow> Inl ValueError
      | Some r \<Rightarrow>
          (case broadcast_dim (ncols a) (ncols b) of
             None \<Rightarrow> Inl ValueError
           | Some c \<Rightarrow> Inr (map (\<lambda>i. map (\<lambda>j. np_div (bget a i j) (bget b i j)) [0..<c]) [0..<r])))"

text \<open>
  \<^verbatim>\<open>np.array(..., dtype='uint32')\<close>: a quotient whose integral part is a \<^verbatim>\<open>uint32\<close> loses
  its fraction. The conversion of every other value (negative, too large, infinite, NaN) is
  left open by C and differs between platforms: it is the parameter \<open>ub\<close>.
\<close>

definition astype_uint32 :: "(npfloat \<Rightarrow> 32 word) \<Rightarrow> npfloat \<Rightarrow> 32 word" where
  "astype_uint32 ub q =
     (case q of
        Fin r \<Rightarrow> if - 1 < r \<and> r < 2 ^ 32 then word_of_int (py_int r) else ub q
      | _ \<Rightarrow> ub q)"

text \<open>
  \<^verbatim>\<open>imgout *= k\<close> for a Python integer \<open>k\<close>: the product wraps in 32 bits, and an integer that
  is no \<^verbatim>\<open>uint32\<close> is refused (with \<^verbatim>\<open>OverflowError\<close> by NumPy 2; NumPy 1 refuses a negative
  integer with a casting error and multiplies by one above the range modulo \<open>2\<^sup>3\<^sup>2\<close>).
\<close>

definition imul :: "32 word list list \<Rightarrow> int \<Rightarrow> py_error + 32 word list list" where
  "imul a k =
     (if 0 \<le> k \<and> k < 2 ^ 32 then Inr (map (map (\<lambda>w. w * word_of_int k)) a)
      else Inl OverflowError)"

text \<open>The stages of \<^verbatim>\<open>darklimb\<close>: \<^verbatim>\<open>array\<close> (lines 110 to 112), the quotient
  \<^verbatim>\<open>array/limbfilt\<close> of line 134 and the integer \<^verbatim>\<open>int(1e-4*np.nanmax(data))\<close> of line 138.
  The pixels are finite numbers, so \<^verbatim>\<open>np.nanmax(data)\<close> is the maximum that \<^verbatim>\<open>np.max(data)\<close>
  has found.\<close>

definition array :: "real \<Rightarrow> real list list \<Rightarrow> npfloat list list" where
  "array mx d = map (map (rescale mx)) d"

definition array_over_limbfilt :: "params \<Rightarrow> real \<Rightarrow> real list list \<Rightarrow> py_error + npfloat list list" where
  "array_over_limbfilt p mx d = (let ll = 1 * wavelength p in np_divide (array mx d) (limbfilt ll p))"

definition multiplier :: "real \<Rightarrow> int" where
  "multiplier mx = py_int (1 / 10 ^ 4 * mx)"

text \<open>
  \<^verbatim>\<open>darklimb\<close> from line 95 on, for the map that \<^verbatim>\<open>Map(name)\<close> has loaded. The three
  assignments to \<^verbatim>\<open>mapa.meta\<close> update the header of the loaded map, which is returned as the
  second component.
\<close>

definition darklimb :: "(npfloat \<Rightarrow> 32 word) \<Rightarrow> real smap \<Rightarrow> py_error + (32 word smap \<times> real smap)" where
  "darklimb ub mapa =
     bind_err (read_head (meta mapa)) (\<lambda>p.
     bind_err (np_max (data mapa)) (\<lambda>mx.
     bind_err (array_over_limbfilt p mx (data mapa)) (\<lambda>q.
       let imgout = map (map (astype_uint32 ub)) q;
           meta' = (meta mapa)(''BZERO'' \<mapsto> bzero p, ''BLANK'' \<mapsto> blank p,
                               ''BSCALE'' \<mapsto> bscale p)
       in bind_err (imul imgout (multiplier mx)) (\<lambda>imgout'.
            Inr (\<lparr>data = imgout', meta = meta'\<rparr>, \<lparr>data = data mapa, meta = meta'\<rparr>)))))"

section \<open>Writing the corrected map\<close>

text \<open>
  \<^verbatim>\<open>str.replace(old, new)\<close> replaces every occurrence of \<open>old\<close>, scanning from the left
  and continuing behind each replaced occurrence; for an empty \<open>old\<close> it puts \<open>new\<close> before
  every character and at the end.
\<close>

fun replace_from :: "string \<Rightarrow> string \<Rightarrow> string \<Rightarrow> string" where
  "replace_from old new [] = []"
| "replace_from old new (c # cs) =
     (if take (length old) (c # cs) = old
      then new @ replace_from old new (drop (length old - 1) cs)
      else c # replace_from old new cs)"

definition py_replace :: "string \<Rightarrow> string \<Rightarrow> string \<Rightarrow> string" where
  "py_replace s old new =
     (if old = [] then new @ concat (map (\<lambda>c. c # new) s) else replace_from old new s)"

text \<open>The module constant \<^verbatim>\<open>replace = '.fits'\<close>.\<close>

definition replace :: string where
  "replace = ''.fits''"

text \<open>
  The directory that \<^verbatim>\<open>image.save\<close> writes to is a map from file names to saved maps;
  with \<^verbatim>\<open>overwrite=1\<close> the file of that name is replaced. \<^verbatim>\<open>writefits\<close> returns the name
  it has written, here with the directory after the call.
\<close>

type_synonym directory = "string \<rightharpoonup> 32 word smap"

definition save :: "directory \<Rightarrow> 32 word smap \<Rightarrow> string \<Rightarrow> directory" where
  "save dir img name = dir(name \<mapsto> img)"

definition writefits :: "directory \<Rightarrow> 32 word smap \<Rightarrow> string \<Rightarrow> directory \<times> string" where
  "writefits dir img name =
     (let name' = py_replace name replace ''_noLimbDark.fits'' in (save dir img name', name'))"

section \<open>Binary64 evaluation of the factor at a clamped pixel\<close>

text \<open>
  Whether the factor of a clamped pixel is the number 1 depends on the rounding of binary64,
  so lines 67 to 89 and 130 to 131 are evaluated here a second time, every literal and every
  operation rounded to the nearest binary64 number, ties to the even significand (numbers in
  the normal range). \<open>floor_log2 x\<close> is the binary exponent of a number that is not zero.
\<close>

definition round_half_even :: "real \<Rightarrow> int" where
  "round_half_even x =
     (let f = \<lfloor>x\<rfloor>; r = x - of_int f
      in if r < 1 / 2 then f else if 1 / 2 < r then f + 1 else if even f then f else f + 1)"

definition pow2 :: "int \<Rightarrow> real" where
  "pow2 e = (if 0 \<le> e then 2 ^ nat e else 1 / 2 ^ nat (- e))"

definition floor_log2 :: "real \<Rightarrow> int" where
  "floor_log2 x =
     (if 1 \<le> \<bar>x\<bar> then bitlen \<lfloor>\<bar>x\<bar>\<rfloor> - 1 else - bitlen (\<lceil>1 / \<bar>x\<bar>\<rceil> - 1))"

definition fl64 :: "real \<Rightarrow> real" where
  "fl64 x =
     (if x = 0 then 0
      else let e = floor_log2 x
           in of_int (round_half_even (x * pow2 (52 - e))) * pow2 (e - 52))"





section \<open>The factor as a function of the normalized radius\<close>

text \<open>
  The factor of a pixel whose normalized radius, before the clamp, is the finite number \<open>g\<close>.
  It is a number for \<open>- 1 \<le> g\<close>; the NaN of a radius below \<open>- 1\<close> is read as 0 here.
\<close>

definition factor :: "real \<Rightarrow> real \<Rightarrow> real \<Rightarrow> real" where
  "factor ul vl g = (case limbfilt_at ul vl (clamp (Fin g)) of Fin r \<Rightarrow> r | _ \<Rightarrow> 0)"

section \<open>Example inputs\<close>

text \<open>
  A two by two image at the wavelength 6173 of the instrument, the disk centred on the
  first pixel with a radius of one pixel.
\<close>

definition hmi_head :: header where
  "hmi_head = [''WAVELNTH'' \<mapsto> 6173, ''CRPIX1'' \<mapsto> 0, ''CRPIX2'' \<mapsto> 0, ''RSUN_OBS'' \<mapsto> 1,
               ''CDELT1'' \<mapsto> 1, ''NAXIS1'' \<mapsto> 2, ''BZERO'' \<mapsto> 0, ''BLANK'' \<mapsto> - 32768,
               ''BSCALE'' \<mapsto> 1]"

definition hmi_map :: "real smap" where
  "hmi_map = \<lparr>data = [[30000, 60000], [45000, 15000]], meta = hmi_head\<rparr>"

text \<open>The same header without \<^verbatim>\<open>BSCALE\<close> and with a pixel scale of zero.\<close>

definition bad_head :: header where
  "bad_head = [''WAVELNTH'' \<mapsto> 6173, ''CRPIX1'' \<mapsto> 0, ''CRPIX2'' \<mapsto> 0, ''RSUN_OBS'' \<mapsto> 1,
               ''CDELT1'' \<mapsto> 0, ''NAXIS1'' \<mapsto> 2, ''BZERO'' \<mapsto> 0, ''BLANK'' \<mapsto> - 32768]"

text \<open>The same image ten times fainter.\<close>

definition faint_map :: "real smap" where
  "faint_map = \<lparr>data = [[3000, 6000], [4500, 1500]], meta = hmi_head\<rparr>"


definition zero_map :: "real smap" where
  "zero_map = \<lparr>data = [[0, 0], [0, 0]], meta = hmi_head\<rparr>"

text \<open>The parameters that \<open>read_head\<close> finds in \<open>hmi_head\<close>.\<close>

definition hmi_params :: params where
  "hmi_params = \<lparr>wavelength = 6173, xcen = 0, ycen = 0, radius = 1, size = 2, bzero = 0,
                  blank = - 32768, bscale = 1\<rparr>"


text \<open>A corrected map to be saved, and a directory that already holds a file.\<close>

definition small_map :: "32 word smap" where
  "small_map = \<lparr>data = [[30000, 163128], [122346, 15000]], meta = hmi_head\<rparr>"

definition old_dir :: directory where
  "old_dir = [''./hmi.ic_45s.2014.02.04_03_44_15_TAI.continuum_noLimbDark.fits''
                \<mapsto> \<lparr>data = [[0]], meta = hmi_head\<rparr>]"

section \<open>Properties\<close>

subsection \<open>Helper facts\<close>

lemma bind_err_Inr [simp]: "bind_err (Inr v) f = f v"
  by (simp add: bind_err_def)

lemma bind_err_Inl [simp]: "bind_err (Inl e) f = Inl e"
  by (simp add: bind_err_def)

lemma bind_err_eq_Inr: "bind_err r f = Inr y \<longleftrightarrow> (\<exists>v. r = Inr v \<and> f v = Inr y)"
  by (cases r) simp_all




lemma factor_inside:
  assumes "- 1 \<le> g" and "g \<le> 1"
  shows "factor ul vl g = 1 - ul - vl + ul * sqrt (1 - g\<^sup>2) + vl * (1 - g\<^sup>2)"
proof -
  from assms have "g\<^sup>2 \<le> 1"
    by (simp add: abs_square_le_1 abs_le_iff)
  then have "sqrt (1 - g\<^sup>2) * sqrt (1 - g\<^sup>2) = 1 - g\<^sup>2"
    by simp
  with assms show ?thesis
    by (simp add: factor_def clamp_def limbfilt_at_def np_square_def cos_arcsin)
qed

lemma factor_outside: "1 < g \<Longrightarrow> factor ul vl g = 1"
  by (simp add: factor_def clamp_def limbfilt_at_def np_square_def)

lemma factor_at_right: "(factor ul vl \<longlongrightarrow> 1) (at_right 1)"
proof -
  have "eventually (\<lambda>g. factor ul vl g = 1) (at_right 1)"
    unfolding eventually_at_filter by (simp add: factor_outside)
  then show ?thesis
    by (rule tendsto_eventually)
qed

lemma factor_at_left: "(factor ul vl \<longlongrightarrow> 1 - ul - vl) (at_left 1)"
proof -
  let ?h = "\<lambda>g::real. 1 - ul - vl + ul * sqrt (1 - g\<^sup>2) + vl * (1 - g\<^sup>2)"
  have "isCont ?h 1"
    by (intro continuous_intros)
  then have "(?h \<longlongrightarrow> ?h 1) (at 1)"
    by (simp add: isCont_def)
  then have h: "(?h \<longlongrightarrow> 1 - ul - vl) (at_left 1)"
    by (simp add: filterlim_at_split)
  have "eventually (\<lambda>g. ?h g = factor ul vl g) (at_left 1)"
    unfolding eventually_at_left_field
    by (rule exI [of _ 0]) (simp add: factor_inside)
  then show ?thesis
    using h by (rule Lim_transform_eventually[rotated])
qed

lemma factor_isCont_iff: "isCont (factor ul vl) 1 \<longleftrightarrow> ul + vl = 0"
proof
  assume "isCont (factor ul vl) 1"
  then have "(factor ul vl \<longlongrightarrow> factor ul vl 1) (at_right 1)"
    by (simp add: isCont_def filterlim_at_split)
  then have "factor ul vl 1 = 1"
    using factor_at_right tendsto_unique trivial_limit_at_right_real by blast
  then show "ul + vl = 0"
    by (simp add: factor_inside)
next
  assume "ul + vl = 0"
  then have eq: "1 - ul - vl = 1"
    by simp
  have l: "(factor ul vl \<longlongrightarrow> 1) (at_left 1)"
    using factor_at_left[of ul vl] by (simp only: eq)
  have "factor ul vl 1 = 1 - ul - vl"
    by (simp add: factor_inside)
  then have "factor ul vl 1 = 1"
    by (simp only: eq)
  then show "isCont (factor ul vl) 1"
    using l factor_at_right[of ul vl]
    by (simp add: isCont_def filterlim_at_split)
qed

subsection \<open>The rounding to binary64\<close>

text \<open>
  \<open>floor_log2\<close> is the binary exponent, and \<open>fl64 x\<close> is a multiple of the unit in the last
  place of \<open>x\<close> that is no further from \<open>x\<close> than half that unit.
\<close>

lemma pow2_powr: "pow2 e = 2 powr (of_int e)"
  by (auto simp: pow2_def powr_realpow[symmetric] powr_minus divide_inverse)

lemma round_half_even_error: "\<bar>of_int (round_half_even y) - y\<bar> \<le> 1 / 2"
  unfolding round_half_even_def Let_def
  by (auto simp: abs_if) linarith+

lemma bitlen_ge_one: "0 < m \<Longrightarrow> 1 \<le> bitlen m"
  by (auto simp: bitlen_alt_def)

lemma floor_log2_bounds:
  assumes "x \<noteq> 0"
  shows "pow2 (floor_log2 x) \<le> \<bar>x\<bar> \<and> \<bar>x\<bar> < pow2 (floor_log2 x + 1)"
proof (cases "1 \<le> \<bar>x\<bar>")
  case True
  define n where "n = \<lfloor>\<bar>x\<bar>\<rfloor>"
  from True have n: "0 < n"
    by (simp add: n_def)
  have e: "floor_log2 x = bitlen n - 1"
    using True by (simp add: floor_log2_def n_def)
  from bitlen_ge_one[OF n] have b: "0 \<le> bitlen n - 1"
    by simp
  from bitlen_bounds[OF n] have lo: "2 ^ nat (bitlen n - 1) \<le> n" and hi: "n < 2 ^ nat (bitlen n)"
    by simp_all
  have "real_of_int (2 ^ nat (bitlen n - 1)) \<le> real_of_int n"
    using lo by (simp only: of_int_le_iff)
  also have "real_of_int n \<le> \<bar>x\<bar>"
    by (simp add: n_def)
  finally have 1: "pow2 (floor_log2 x) \<le> \<bar>x\<bar>"
    using b by (simp add: e pow2_def)
  from hi have "n + 1 \<le> 2 ^ nat (bitlen n)"
    by simp
  then have "real_of_int (n + 1) \<le> real_of_int (2 ^ nat (bitlen n))"
    by (simp only: of_int_le_iff)
  moreover have "\<bar>x\<bar> < real_of_int (n + 1)"
    by (simp add: n_def)
  ultimately have 2: "\<bar>x\<bar> < pow2 (floor_log2 x + 1)"
    using b by (simp add: e pow2_def)
  from 1 2 show ?thesis
    by simp
next
  case False
  define y where "y = 1 / \<bar>x\<bar>"
  define m where "m = \<lceil>y\<rceil> - 1"
  from False assms have y: "1 < y"
    by (simp add: y_def)
  then have m: "0 < m"
    by (simp add: m_def less_ceiling_iff)
  have my: "real_of_int m < y" "y \<le> real_of_int m + 1"
    by (simp_all add: m_def ceiling_correct)
  have e: "floor_log2 x = - bitlen m"
    using False by (simp add: floor_log2_def m_def y_def)
  let ?k = "bitlen m"
  from bitlen_ge_one[OF m] have k: "1 \<le> ?k"
    by simp
  from bitlen_bounds[OF m] have lo: "2 ^ nat (?k - 1) \<le> m" and hi: "m < 2 ^ nat ?k"
    by simp_all
  have xy: "\<bar>x\<bar> = 1 / y" and ypos: "0 < y"
    using assms y by (simp_all add: y_def)
  from hi have "m + 1 \<le> 2 ^ nat ?k"
    by simp
  then have "real_of_int (m + 1) \<le> real_of_int (2 ^ nat ?k)"
    by (simp only: of_int_le_iff)
  with my(2) have "y \<le> 2 ^ nat ?k"
    by simp
  then have "1 / 2 ^ nat ?k \<le> 1 / y"
    using ypos by (simp add: frac_le)
  then have 1: "pow2 (floor_log2 x) \<le> \<bar>x\<bar>"
    using k by (simp add: e pow2_def xy)
  have "real_of_int (2 ^ nat (?k - 1)) \<le> real_of_int m"
    using lo by (simp only: of_int_le_iff)
  then have "(2 :: real) ^ nat (?k - 1) \<le> real_of_int m"
    by simp
  with my(1) have "2 ^ nat (?k - 1) < y"
    by linarith
  then have "1 / y < 1 / 2 ^ nat (?k - 1)"
    by (simp add: frac_less2)
  moreover have "pow2 (1 - ?k) = 1 / 2 ^ nat (?k - 1)"
    using k by (cases "?k = 1") (simp_all add: pow2_def)
  ultimately have 2: "\<bar>x\<bar> < pow2 (floor_log2 x + 1)"
    by (simp add: e xy)
  from 1 2 show ?thesis
    by simp
qed

lemma pow2_add: "pow2 (a + b) = pow2 a * pow2 b"
  by (simp add: pow2_powr powr_add)

lemma pow2_pos: "0 < pow2 e"
  by (simp add: pow2_powr)

lemma fl64_error:
  assumes "x \<noteq> 0"
  shows "\<bar>fl64 x - x\<bar> \<le> pow2 (floor_log2 x - 53)"
proof -
  let ?e = "floor_log2 x"
  let ?y = "x * pow2 (52 - ?e)"
  have inv: "pow2 (52 - ?e) * pow2 (?e - 52) = 1"
    using pow2_add[of "52 - ?e" "?e - 52"] by (simp add: pow2_def)
  have "fl64 x - x = (of_int (round_half_even ?y) - ?y) * pow2 (?e - 52)"
    using assms inv by (simp add: fl64_def Let_def algebra_simps)
  then have "\<bar>fl64 x - x\<bar> = \<bar>of_int (round_half_even ?y) - ?y\<bar> * pow2 (?e - 52)"
    using pow2_pos[of "?e - 52"] by (simp add: abs_mult)
  also have "\<dots> \<le> 1 / 2 * pow2 (?e - 52)"
    using round_half_even_error[of ?y] pow2_pos[of "?e - 52"] by (simp add: mult_right_mono)
  also have "\<dots> = pow2 (?e - 53)"
    using pow2_add[of "?e - 53" 1] by (simp add: pow2_def)
  finally show ?thesis .
qed

lemma fl64_exact_grid:
  assumes "x \<noteq> 0"
  shows "\<exists>k. fl64 x = of_int k * pow2 (floor_log2 x - 52)"
  using assms by (auto simp: fl64_def Let_def)











subsection \<open>The factor outside the disk\<close>




subsection \<open>The factor at the edge of the disk\<close>

text \<open>
  C2, as amended. At the normalized radius 1 the factor is \<open>1 - u - v\<close> and is the limit of
  the factor from inside the disk; from outside the limit is 1. So the factor is continuous
  at the edge exactly when \<open>u + v = 0\<close>, and jumps by \<open>u + v\<close> otherwise.
\<close>

theorem factor_at_edge:
  "factor ul vl 1 = 1 - ul - vl
   \<and> (factor ul vl \<longlongrightarrow> factor ul vl 1) (at_left 1)
   \<and> (factor ul vl \<longlongrightarrow> 1) (at_right 1)
   \<and> (isCont (factor ul vl) 1 \<longleftrightarrow> ul + vl = 0)"
proof -
  have v: "factor ul vl 1 = 1 - ul - vl"
    by (simp add: factor_inside)
  have "(factor ul vl \<longlongrightarrow> factor ul vl 1) (at_left 1)"
    using factor_at_left[of ul vl] by (simp only: v)
  then show ?thesis
    using v factor_at_right factor_isCont_iff by blast
qed

text \<open>C2, as stated, fails at the wavelength 6173 of the instrument: \<open>u + v\<close> is not 0 there.\<close>

theorem factor_discontinuous_counterexample:
  "\<not> isCont (factor (darklimb_u 6173) (darklimb_v 6173)) 1"
proof -
  have "darklimb_u 6173 + darklimb_v 6173 \<noteq> 0"
    by (simp add: darklimb_u_def darklimb_v_def)
  then show ?thesis
    by (simp add: factor_isCont_iff)
qed

subsection \<open>The coefficient polynomials\<close>


subsection \<open>Reading the header\<close>

lemma getitem_eq_Inr: "getitem head k = Inr v \<longleftrightarrow> head k = Some v"
  by (simp add: getitem_def split: option.split)

lemma getitem_None: "head k = None \<Longrightarrow> getitem head k = Inl (KeyError k)"
  by (simp add: getitem_def)

lemma getitem_Some: "head k = Some v \<Longrightarrow> getitem head k = Inr v"
  by (simp add: getitem_def)

lemma py_truediv_eq_Inr: "py_truediv a b = Inr r \<longleftrightarrow> b \<noteq> 0 \<and> r = a / b"
  by (auto simp: py_truediv_def)

lemma read_head_fields:
  assumes "read_head head = Inr p"
  shows "head ''WAVELNTH'' = Some (wavelength p)" and "head ''CRPIX1'' = Some (xcen p)"
    and "head ''CRPIX2'' = Some (ycen p)" and "head ''NAXIS1'' = Some (size p)"
    and "head ''BZERO'' = Some (bzero p)" and "head ''BLANK'' = Some (blank p)"
    and "head ''BSCALE'' = Some (bscale p)"
    and "\<exists>rsun_obs cdelt1. head ''RSUN_OBS'' = Some rsun_obs \<and> head ''CDELT1'' = Some cdelt1
           \<and> cdelt1 \<noteq> 0 \<and> radius p = rsun_obs / cdelt1"
  using assms
  by (auto simp: read_head_def bind_err_eq_Inr getitem_eq_Inr py_truediv_eq_Inr)

text \<open>
  C5, as amended. The nine fields are read in the order of \<open>header_keys\<close>, the quotient
  \<^verbatim>\<open>RSUN_OBS / CDELT1\<close> being taken after the fifth. The call fails with \<^verbatim>\<open>KeyError\<close> at the
  first absent key, unless the first five keys are present and \<^verbatim>\<open>CDELT1\<close> is zero: then it
  fails with \<^verbatim>\<open>ZeroDivisionError\<close> before the last four keys are looked at. In every case an
  absent key makes the call fail, and with all keys present and a pixel scale that is not
  zero the radius in pixels is that quotient.
\<close>

theorem read_head_outcome:
  "read_head head =
     (case find (\<lambda>k. head k = None) (take 5 header_keys) of
        Some k \<Rightarrow> Inl (KeyError k)
      | None \<Rightarrow>
          if head ''CDELT1'' = Some 0 then Inl ZeroDivisionError
          else (case find (\<lambda>k. head k = None) (drop 5 header_keys) of
                  Some k \<Rightarrow> Inl (KeyError k)
                | None \<Rightarrow>
                    Inr \<lparr>wavelength = the (head ''WAVELNTH''), xcen = the (head ''CRPIX1''),
                         ycen = the (head ''CRPIX2''),
                         radius = the (head ''RSUN_OBS'') / the (head ''CDELT1''),
                         size = the (head ''NAXIS1''), bzero = the (head ''BZERO''),
                         blank = the (head ''BLANK''), bscale = the (head ''BSCALE'')\<rparr>))
   \<and> ((\<exists>k \<in> set header_keys. head k = None) \<longrightarrow> isl (read_head head))"
proof -
  have eq: "read_head head =
     (case find (\<lambda>k. head k = None) (take 5 header_keys) of
        Some k \<Rightarrow> Inl (KeyError k)
      | None \<Rightarrow>
          if head ''CDELT1'' = Some 0 then Inl ZeroDivisionError
          else (case find (\<lambda>k. head k = None) (drop 5 header_keys) of
                  Some k \<Rightarrow> Inl (KeyError k)
                | None \<Rightarrow>
                    Inr \<lparr>wavelength = the (head ''WAVELNTH''), xcen = the (head ''CRPIX1''),
                         ycen = the (head ''CRPIX2''),
                         radius = the (head ''RSUN_OBS'') / the (head ''CDELT1''),
                         size = the (head ''NAXIS1''), bzero = the (head ''BZERO''),
                         blank = the (head ''BLANK''), bscale = the (head ''BSCALE'')\<rparr>))"
    by (auto simp: read_head_def header_keys_def getitem_def py_truediv_def
        split: option.splits)
  have "isl (read_head head)" if "\<exists>k \<in> set header_keys. head k = None"
  proof (rule ccontr)
    assume "\<not> isl (read_head head)"
    then obtain p where "read_head head = Inr p"
      by (cases "read_head head") simp_all
    from read_head_fields[OF this] that show False
      by (auto simp: header_keys_def)
  qed
  with eq show ?thesis
    by blast
qed

theorem read_head_outcome_witness:
  "read_head bad_head = Inl ZeroDivisionError \<and> isl (read_head bad_head)
   \<and> read_head hmi_head =
       Inr \<lparr>wavelength = 6173, xcen = 0, ycen = 0, radius = 1, size = 2, bzero = 0,
            blank = - 32768, bscale = 1\<rparr>"
proof -
  have "\<exists>k \<in> set header_keys. bad_head k = None"
    by (simp add: header_keys_def bad_head_def)
  then show ?thesis
    using read_head_outcome [of bad_head] read_head_outcome [of hmi_head]
    by (simp add: header_keys_def bad_head_def hmi_head_def)
qed

text \<open>
  C5, as stated, fails for a header in which \<^verbatim>\<open>BSCALE\<close> is absent and \<^verbatim>\<open>CDELT1\<close> is zero: the
  error is \<^verbatim>\<open>ZeroDivisionError\<close>, raised at line 102, not the error of the absent key.
\<close>

theorem read_head_zero_scale_counterexample:
  "bad_head ''BSCALE'' = None
   \<and> read_head bad_head = Inl ZeroDivisionError
   \<and> darklimb (\<lambda>x. 0) \<lparr>data = [[30000, 60000], [45000, 15000]], meta = bad_head\<rparr>
       = Inl ZeroDivisionError"
  by (simp add: darklimb_def read_head_def bad_head_def getitem_def py_truediv_def)

subsection \<open>The stages of the correction\<close>

lemma darklimb_Inr_iff:
  "darklimb ub mapa = Inr (corrected, original) \<longleftrightarrow>
     (\<exists>p mx q. read_head (meta mapa) = Inr p \<and> np_max (data mapa) = Inr mx
        \<and> array_over_limbfilt p mx (data mapa) = Inr q
        \<and> 0 \<le> multiplier mx \<and> multiplier mx < 2 ^ 32
        \<and> corrected = \<lparr>data = map (map (\<lambda>x. astype_uint32 ub x * word_of_int (multiplier mx))) q,
                         meta = meta mapa\<rparr>
        \<and> original = mapa)"
proof -
  have upd: "(meta mapa)(''BZERO'' \<mapsto> bzero p, ''BLANK'' \<mapsto> blank p, ''BSCALE'' \<mapsto> bscale p)
      = meta mapa" if "read_head (meta mapa) = Inr p" for p
    using read_head_fields(5-7)[OF that] by (simp add: fun_upd_idem)
  have rec: "\<lparr>data = data mapa, meta = meta mapa\<rparr> = mapa"
    by simp
  show ?thesis
    unfolding darklimb_def bind_err_eq_Inr Let_def imul_def
    by (auto simp: upd rec map_map comp_def cong: if_cong)
qed

lemmas darklimb_eval = darklimb_def read_head_def getitem_def py_truediv_def np_max_def
  array_over_limbfilt_def limbfilt_def Let_def upt_rec grid_at_def normalized_def clamp_def
  limbfilt_at_def np_square_def array_def rescale_def np_divide_def nrows_def ncols_def
  broadcast_dim_def bget_def darklimb_u_def darklimb_v_def astype_uint32_def py_int_def
  multiplier_def imul_def hmi_head_def

lemma darklimb_hmi_map:
  "darklimb (\<lambda>x. 0) hmi_map =
     Inr (\<lparr>data = [[30000, 163128], [122346, 15000]], meta = hmi_head\<rparr>, hmi_map)"
  by (simp add: hmi_map_def darklimb_eval)

lemma darklimb_faint_map:
  "darklimb (\<lambda>x. 0) faint_map = Inr (\<lparr>data = [[0, 0], [0, 0]], meta = hmi_head\<rparr>, faint_map)"
  by (simp add: faint_map_def darklimb_eval)

subsection \<open>The header of the result\<close>

text \<open>
  C6. When the correction returns, the header of the corrected map equals the header of
  the input, in particular at \<^verbatim>\<open>BZERO\<close>, \<^verbatim>\<open>BLANK\<close> and \<^verbatim>\<open>BSCALE\<close>, and the second map returned
  is the input itself, grid and header unchanged.
\<close>

theorem darklimb_metadata_preserved:
  assumes "darklimb ub mapa = Inr (corrected, original)"
  shows "meta corrected ''BZERO'' = meta mapa ''BZERO''
       \<and> meta corrected ''BLANK'' = meta mapa ''BLANK''
       \<and> meta corrected ''BSCALE'' = meta mapa ''BSCALE''
       \<and> meta corrected = meta mapa
       \<and> original = mapa"
  using assms unfolding darklimb_Inr_iff by auto

theorem darklimb_metadata_preserved_witness:
  "darklimb (\<lambda>x. 0) hmi_map =
     Inr (\<lparr>data = [[30000, 163128], [122346, 15000]], meta = hmi_head\<rparr>, hmi_map)
   \<and> meta \<lparr>data = [[30000, 163128], [122346, 15000 :: 32 word]], meta = hmi_head\<rparr> ''BZERO''
       = meta hmi_map ''BZERO''
   \<and> meta \<lparr>data = [[30000, 163128], [122346, 15000 :: 32 word]], meta = hmi_head\<rparr> ''BSCALE''
       = Some 1"
  using darklimb_metadata_preserved [OF darklimb_hmi_map] darklimb_hmi_map
  by (simp add: hmi_head_def)

subsection \<open>Faint images\<close>

lemma py_int_small: "0 \<le> r \<Longrightarrow> r < 1 \<Longrightarrow> py_int r = 0"
  by (simp add: py_int_def floor_eq_iff)

text \<open>
  C10. When the largest raw pixel is positive and less than \<open>10\<^sup>4\<close>, the integer
  \<^verbatim>\<open>int(1e-4*np.nanmax(data))\<close> is 0, and every pixel of the corrected map that is returned
  is 0.
\<close>

theorem faint_image_all_zero:
  assumes "darklimb ub mapa = Inr (corrected, original)"
    and "np_max (data mapa) = Inr mx" and "0 < mx" and "mx < 10 ^ 4"
  shows "multiplier mx = 0 \<and> (\<forall>row \<in> set (data corrected). \<forall>w \<in> set row. w = 0)"
proof -
  from assms(3,4) have m: "multiplier mx = 0"
    unfolding multiplier_def by (intro py_int_small) simp_all
  with assms(1,2) show ?thesis
    unfolding darklimb_Inr_iff by auto
qed

theorem faint_image_all_zero_witness:
  "darklimb (\<lambda>x. 0) faint_map = Inr (\<lparr>data = [[0, 0], [0, 0]], meta = hmi_head\<rparr>, faint_map)
   \<and> np_max (data faint_map) = Inr 6000 \<and> (0 :: real) < 6000 \<and> (6000 :: real) < 10 ^ 4
   \<and> multiplier 6000 = 0"
proof -
  have mx: "np_max (data faint_map) = Inr 6000"
    by (simp add: faint_map_def np_max_def)
  show ?thesis
    using faint_image_all_zero [OF darklimb_faint_map mx] darklimb_faint_map mx by simp
qed

subsection \<open>Shapes\<close>


lemma nrows_limbfilt: "nrows (limbfilt ll p) = nat \<lceil>size p\<rceil>"
  by (simp add: limbfilt_def nrows_def Let_def)

lemma ncols_map_upt: "ncols (map f [0..<n]) = (if n = 0 then 0 else length (f 0))"
  by (cases n) (simp_all add: ncols_def upt_conv_Cons del: upt_Suc)

lemma ncols_limbfilt: "ncols (limbfilt ll p) = nat \<lceil>size p\<rceil>"
  by (simp add: limbfilt_def Let_def ncols_map_upt)

lemma nrows_array: "nrows (array mx d) = nrows d"
  by (simp add: array_def nrows_def)

lemma ncols_array: "ncols (array mx d) = ncols d"
  by (simp add: array_def ncols_def split: list.split)





lemma array_over_limbfilt_square:
  assumes "nrows d = n" and "ncols d = n" and "n = nat \<lceil>size p\<rceil>"
  shows "\<exists>q. array_over_limbfilt p mx d = Inr q \<and> length q = n \<and> (\<forall>row \<in> set q. length row = n)"
  using assms
  by (simp add: array_over_limbfilt_def np_divide_def nrows_array ncols_array nrows_limbfilt
      ncols_limbfilt broadcast_dim_def)


lemma read_hmi_head: "read_head hmi_head = Inr hmi_params"
  by (simp add: read_head_def hmi_head_def hmi_params_def getitem_def py_truediv_def)




subsection \<open>The pixels of the result\<close>







subsection \<open>Degenerate images\<close>

lemma np_div_zero: "np_div a (Fin 0) \<in> {NaN, PInf, NInf}"
  by (cases a) (simp_all add: np_signed_inf_def)

lemma rescale_zero_max: "rescale 0 d \<in> {Fin 0, NaN, PInf, NInf}"
  by (simp add: rescale_def np_signed_inf_def)

text \<open>
  C4, as amended. The correction checks neither the maximum nor the factor. A zero divisor
  gives NaN or an infinity, not an error, and for a complete header with a pixel scale that
  is not zero and a square grid of the size of the header the call returns whenever the
  integer \<^verbatim>\<open>int(1e-4*max)\<close> is a \<^verbatim>\<open>uint32\<close>, whatever the values of the factor. When the maximum
  is 0 the rescaled pixels are NaN or infinite and every pixel returned is 0.
\<close>

theorem no_degenerate_image_check:
  assumes "read_head (meta mapa) = Inr p" and "n = nat \<lceil>size p\<rceil>"
    and "shape (data mapa) = (n, n)"
    and "np_max (data mapa) = Inr mx"
    and "0 \<le> multiplier mx" and "multiplier mx < 2 ^ 32"
  shows "(\<exists>corrected. darklimb ub mapa = Inr (corrected, mapa)
            \<and> (mx = 0 \<longrightarrow> data corrected = replicate n (replicate n 0)))
       \<and> (\<forall>a. np_div a (Fin 0) \<in> {NaN, PInf, NInf})"
proof -
  from assms(3) have "nrows (data mapa) = n" "ncols (data mapa) = n"
    by (simp_all add: shape_def)
  from array_over_limbfilt_square[OF this assms(2)] obtain q where
    q: "array_over_limbfilt p mx (data mapa) = Inr q" "length q = n" "\<forall>row \<in> set q. length row = n"
    by blast
  let ?c = "\<lparr>data = map (map (\<lambda>x. astype_uint32 ub x * word_of_int (multiplier mx))) q,
              meta = meta mapa\<rparr>"
  have ret: "darklimb ub mapa = Inr (?c, mapa)"
    unfolding darklimb_Inr_iff using assms q by blast
  have zero: "data ?c = replicate n (replicate n 0)" if "mx = 0"
  proof -
    have "multiplier mx = 0"
      using that by (simp add: multiplier_def py_int_def)
    then have "data ?c = map (map (\<lambda>x. 0)) q"
      by simp
    also have "\<dots> = map (\<lambda>row. replicate n 0) q"
      using q(3) by (induction q) (simp_all add: map_replicate_const)
    also have "\<dots> = replicate n (replicate n 0)"
      using q(2) by (simp add: map_replicate_const)
    finally show ?thesis .
  qed
  from ret zero show ?thesis
    using np_div_zero by blast
qed

lemma darklimb_zero_map:
  "darklimb (\<lambda>x. 7) zero_map = Inr (\<lparr>data = [[0, 0], [0, 0]], meta = hmi_head\<rparr>, zero_map)"
  by (simp add: zero_map_def darklimb_eval)

theorem no_degenerate_image_check_witness:
  "read_head (meta zero_map) = Inr hmi_params \<and> 2 = nat \<lceil>size hmi_params\<rceil>
   \<and> shape (data zero_map) = (2, 2) \<and> np_max (data zero_map) = Inr 0
   \<and> 0 \<le> multiplier 0 \<and> multiplier 0 < 2 ^ 32
   \<and> darklimb (\<lambda>x. 7) zero_map = Inr (\<lparr>data = [[0, 0], [0, 0]], meta = hmi_head\<rparr>, zero_map)
   \<and> np_div (Fin 10000) (Fin 0) = PInf"
proof -
  have h: "read_head (meta zero_map) = Inr hmi_params"
    by (simp add: zero_map_def read_hmi_head)
  have n: "2 = nat \<lceil>size hmi_params\<rceil>"
    by (simp add: hmi_params_def)
  have s: "shape (data zero_map) = (2, 2)"
    by (simp add: zero_map_def shape_def nrows_def ncols_def)
  have mx: "np_max (data zero_map) = Inr 0"
    by (simp add: zero_map_def np_max_def)
  have m: "0 \<le> multiplier 0" "multiplier 0 < 2 ^ 32"
    by (simp_all add: multiplier_def py_int_def)
  show ?thesis
    using no_degenerate_image_check [OF h n s mx m, of "\<lambda>x. 7"] h n s mx m darklimb_zero_map
    by (simp add: np_signed_inf_def)
qed

text \<open>
  C4, as stated, fails on an image of zeros: the rescaled pixels are NaN, no error is
  raised, and the call returns a grid of zeros.
\<close>

theorem zero_image_counterexample:
  "np_max (data zero_map) = Inr 0
   \<and> array 0 (data zero_map) = [[NaN, NaN], [NaN, NaN]]
   \<and> darklimb (\<lambda>x. 7) zero_map = Inr (\<lparr>data = [[0, 0], [0, 0]], meta = hmi_head\<rparr>, zero_map)"
  by (simp add: zero_map_def darklimb_eval)

subsection \<open>The name of the file written\<close>

lemma replace_from_suffix:
  assumes "old \<noteq> []"
    and "\<forall>i<length xs. take (length old) (drop i (xs @ old)) \<noteq> old"
  shows "replace_from old new (xs @ old) = xs @ new"
  using assms(2)
proof (induction xs)
  case Nil
  from assms(1) obtain c cs where "old = c # cs"
    by (cases old) auto
  then show ?case
    by simp
next
  case (Cons x xs)
  from Cons.prems have "take (length old) (drop 0 ((x # xs) @ old)) \<noteq> old"
    by blast
  then have head: "take (length old) (x # xs @ old) \<noteq> old"
    by simp
  have "take (length old) (drop i (xs @ old)) \<noteq> old" if "i < length xs" for i
    using Cons.prems[rule_format, of "Suc i"] that by simp
  then have "replace_from old new (xs @ old) = xs @ new"
    using Cons.IH by blast
  with head show ?case
    by simp
qed

text \<open>
  C9, as amended. A name that ends in \<^verbatim>\<open>.fits\<close> and holds \<^verbatim>\<open>.fits\<close> nowhere else is written
  with \<^verbatim>\<open>_noLimbDark.fits\<close> in place of that suffix, the text before it untouched. Whatever
  the name, the file of the derived name holds the saved map after the call, whatever it
  held before, and that name is returned.
\<close>

theorem writefits_name:
  "((\<forall>i<length stem. take 5 (drop i (stem @ ''.fits'')) \<noteq> ''.fits'') \<longrightarrow>
      writefits dir img (stem @ ''.fits'')
        = (dir(stem @ ''_noLimbDark.fits'' \<mapsto> img), stem @ ''_noLimbDark.fits''))
   \<and> fst (writefits dir img name) (snd (writefits dir img name)) = Some img
   \<and> snd (writefits dir img name) = py_replace name ''.fits'' ''_noLimbDark.fits''"
proof -
  have len: "length ''.fits'' = 5"
    by simp
  have "replace_from ''.fits'' ''_noLimbDark.fits'' (stem @ ''.fits'') = stem @ ''_noLimbDark.fits''"
    if h: "\<forall>i<length stem. take 5 (drop i (stem @ ''.fits'')) \<noteq> ''.fits''"
  proof (rule replace_from_suffix)
    show "''.fits'' \<noteq> []"
      by simp
    show "\<forall>i<length stem. take (length ''.fits'') (drop i (stem @ ''.fits'')) \<noteq> ''.fits''"
      using h by (simp only: len)
  qed
  then show ?thesis
    by (simp add: writefits_def save_def py_replace_def replace_def Let_def)
qed

theorem writefits_name_witness:
  "writefits old_dir small_map ''./hmi.ic_45s.2014.02.04_03_44_15_TAI.continuum.fits''
     = (old_dir(''./hmi.ic_45s.2014.02.04_03_44_15_TAI.continuum_noLimbDark.fits'' \<mapsto> small_map),
        ''./hmi.ic_45s.2014.02.04_03_44_15_TAI.continuum_noLimbDark.fits'')
   \<and> old_dir ''./hmi.ic_45s.2014.02.04_03_44_15_TAI.continuum_noLimbDark.fits''
       = Some \<lparr>data = [[0]], meta = hmi_head\<rparr>
   \<and> fst (writefits old_dir small_map ''./hmi.ic_45s.2014.02.04_03_44_15_TAI.continuum.fits'')
        ''./hmi.ic_45s.2014.02.04_03_44_15_TAI.continuum_noLimbDark.fits'' = Some small_map"
proof -
  have "list_all (\<lambda>i. take 5 (drop i (''./hmi.ic_45s.2014.02.04_03_44_15_TAI.continuum''
      @ ''.fits'')) \<noteq> ''.fits'') [0..<46]"
    by (simp add: upt_rec)
  then have occ: "\<forall>i<length ''./hmi.ic_45s.2014.02.04_03_44_15_TAI.continuum''.
      take 5 (drop i (''./hmi.ic_45s.2014.02.04_03_44_15_TAI.continuum'' @ ''.fits'')) \<noteq> ''.fits''"
    by (simp only: list_all_iff set_upt atLeastLessThan_iff) simp
  show ?thesis
    using writefits_name [of "''./hmi.ic_45s.2014.02.04_03_44_15_TAI.continuum''" old_dir small_map
        "''./hmi.ic_45s.2014.02.04_03_44_15_TAI.continuum.fits''"] occ
    by (simp add: old_dir_def)
qed

text \<open>
  C9, as stated, fails for a name that holds \<^verbatim>\<open>.fits\<close> before its suffix: both occurrences
  are replaced.
\<close>

theorem writefits_inner_occurrence_counterexample:
  "snd (writefits Map.empty small_map ''hmi.fits_copy.fits'')
     = ''hmi_noLimbDark.fits_copy_noLimbDark.fits''
   \<and> snd (writefits Map.empty small_map ''hmi.fits_copy.fits'')
     \<noteq> ''hmi.fits_copy'' @ ''_noLimbDark.fits''"
  by (simp add: writefits_def py_replace_def replace_def Let_def)

end
